theory Spec2Isabelle
  imports Main
begin

section \<open>HTTP messages and Python values\<close>

text \<open>
  The program under verification is \<^verbatim>\<open>backend/main.py\<close>:
  \<^verbatim>\<open>
  from flask import Flask, jsonify, request
  import os

  app = Flask(__name__)

  @app.route('/api/test', methods=['GET'])
  def test():
      return jsonify({'message': 'Python backend is working!'})

  if __name__ == '__main__':
      app.run(host='127.0.0.1', port=5000, debug=True)
  \<close>
  A request carries everything a client controls: the method, the (decoded) path, the
  query parameters, the headers and the body.
\<close>

record request =
  req_method :: string
  req_path :: string
  req_args :: "(string \<times> string) list"
  req_headers :: "(string \<times> string) list"
  req_data :: string

text \<open>
  The Python values a view can hand to \<^verbatim>\<open>jsonify\<close>: strings, dictionaries with string
  keys (an association list, in insertion order), and \<open>PyObject\<close> for every value that
  has no JSON encoding (a set, a function, an open file), named by its type.
\<close>

datatype pyval = PyStr string | PyDict "(string \<times> pyval) list" | PyObject string

datatype json = JStr string | JObj "(string \<times> json) list"

datatype py_error = TypeError

text \<open>
  A response body is kept as the JSON value it serialises, so that two bodies are equal
  exactly when they are JSON-equivalent whatever whitespace the serialiser emits. The
  framework's own bodies are kept by what they are: an error page by its title, a
  redirect by its target, a file of the debugger by its name, and the debugger's console
  page.
\<close>

datatype body = Json json | ErrorPage string | Redirect string | DebuggerFile string | ConsolePage

record response =
  status :: nat
  mimetype :: string
  resp_body :: body

section \<open>The state of the process\<close>

record rule =
  rule_path :: string
  rule_methods :: "string list"
  endpoint :: string

record listener =
  host :: string
  port :: nat
  debug :: bool

datatype lifecycle = Stopped | Listening listener

text \<open>
  Everything a running view could read or change: the application object's import name
  and URL map, the lifecycle of the server, and \<open>ambient\<close>, which stands for the rest of
  what the process can reach (environment variables, files, other globals) and is left
  abstract. A view runs in this state with the current request at hand (Flask's context
  local \<^verbatim>\<open>request\<close>), returns a response or raises, and leaves a state behind.
\<close>

record 's process =
  import_name :: string
  url_map :: "rule list"
  lifecycle :: lifecycle
  ambient :: 's

type_synonym 's view = "'s process \<Rightarrow> request \<Rightarrow> (py_error + response) \<times> 's process"

record 's flask =
  proc :: "'s process"
  view_functions :: "(string \<times> 's view) list"

section \<open>The framework calls the program makes\<close>

text \<open>
  Flask is a dependency of the repository, not part of its sources. The calls that
  \<^verbatim>\<open>main.py\<close> makes are modelled from the specification's description of the hosting
  framework, no further: a route is a (method, path) pair mapped to a handler, a request
  to an undefined path gets the default "not found" answer, a request to a defined path
  with an undefined method gets "method not allowed". Two things the framework does and
  the specification does not describe are modelled from Werkzeug, because they answer
  requests of the kind the properties below quantify over: the redirect of a path that
  matches a rule only once its doubled slashes are merged, and the debugger that debug
  mode puts in front of the application. The rules and method aliases that Flask adds
  to an application on its own (the static folder, HEAD and OPTIONS) are outside this
  model.
\<close>

fun to_json :: "pyval \<Rightarrow> py_error + json"
  and to_json_items :: "(string \<times> pyval) list \<Rightarrow> py_error + (string \<times> json) list" where
  "to_json (PyStr s) = Inr (JStr s)"
| "to_json (PyDict kvs) =
     (case to_json_items kvs of Inl e \<Rightarrow> Inl e | Inr js \<Rightarrow> Inr (JObj js))"
| "to_json (PyObject t) = Inl TypeError"
| "to_json_items [] = Inr []"
| "to_json_items ((k, v) # kvs) =
     (case to_json v of
        Inl e \<Rightarrow> Inl e
      | Inr j \<Rightarrow> (case to_json_items kvs of Inl e \<Rightarrow> Inl e | Inr js \<Rightarrow> Inr ((k, j) # js)))"

text \<open>
  Modelled from the spec: \<^verbatim>\<open>flask.jsonify\<close>. "Output: HTTP status 200, a response body
  containing a serialized mapping, content type indicating JSON." A value with no JSON
  encoding makes the serialiser raise.
\<close>

definition jsonify :: "pyval \<Rightarrow> py_error + response" where
  "jsonify v =
     (case to_json v of
        Inl e \<Rightarrow> Inl e
      | Inr j \<Rightarrow> Inr \<lparr>status = 200, mimetype = ''application/json'', resp_body = Json j\<rparr>)"

text \<open>
  Modelled from the spec: the constructor \<^verbatim>\<open>Flask(import_name)\<close>. A new application has
  no route and its server is stopped.
\<close>

definition Flask :: "string \<Rightarrow> 's \<Rightarrow> 's flask" where
  "Flask name a =
     \<lparr>proc = \<lparr>import_name = name, url_map = [], lifecycle = Stopped, ambient = a\<rparr>,
      view_functions = []\<rparr>"

text \<open>
  Modelled from the spec: the decorator \<^verbatim>\<open>@app.route(rule, methods=...)\<close> over a function
  named \<open>name\<close>. "Route: a (method, path) pair mapped to a handler."
\<close>

definition route :: "'s flask \<Rightarrow> string \<Rightarrow> string list \<Rightarrow> string \<Rightarrow> 's view \<Rightarrow> 's flask" where
  "route app r ms name f =
     app\<lparr>proc := (proc app)\<lparr>url_map :=
            url_map (proc app) @ [\<lparr>rule_path = r, rule_methods = ms, endpoint = name\<rparr>]\<rparr>,
         view_functions := view_functions app @ [(name, f)]\<rparr>"

definition not_found :: response where
  "not_found = \<lparr>status = 404, mimetype = ''text/html'', resp_body = ErrorPage ''Not Found''\<rparr>"

definition method_not_allowed :: response where
  "method_not_allowed =
     \<lparr>status = 405, mimetype = ''text/html'', resp_body = ErrorPage ''Method Not Allowed''\<rparr>"

definition internal_server_error :: response where
  "internal_server_error =
     \<lparr>status = 500, mimetype = ''text/html'', resp_body = ErrorPage ''Internal Server Error''\<rparr>"

text \<open>
  Werkzeug's matcher, when no rule matches a path, tries once more with the path
  rewritten by \<^verbatim>\<open>re.sub("/{2,}?", "/", path)\<close>: from the left, each two adjacent slashes
  become one. A match on the second try is answered with a permanent redirect (status
  308) to the rewritten path.
\<close>

fun merge_slashes :: "string \<Rightarrow> string" where
  "merge_slashes [] = []"
| "merge_slashes [c] = [c]"
| "merge_slashes (c # d # cs) =
     (if c = CHR ''/'' \<and> d = CHR ''/'' then CHR ''/'' # merge_slashes cs
      else c # merge_slashes (d # cs))"

definition redirect :: "string \<Rightarrow> response" where
  "redirect location = \<lparr>status = 308, mimetype = ''text/html'', resp_body = Redirect location\<rparr>"

text \<open>
  Modelled from the spec: the framework's dispatch of one request. "Any request to an
  undefined path or method falls through to the hosting framework's default
  not found / method not allowed behavior." A view that raises is answered with status 500.
  Where no rule has the request's path, the second try over the merged path decides
  between the redirect, "method not allowed" and "not found".
\<close>

definition full_dispatch_request :: "'s flask \<Rightarrow> request \<Rightarrow> response \<times> 's flask" where
  "full_dispatch_request app req =
     (case filter (\<lambda>r. rule_path r = req_path req) (url_map (proc app)) of
        [] \<Rightarrow>
          (case filter (\<lambda>r. rule_path r = merge_slashes (req_path req)) (url_map (proc app)) of
             [] \<Rightarrow> (not_found, app)
           | m # ms \<Rightarrow>
               (case find (\<lambda>r'. req_method req \<in> set (rule_methods r')) (m # ms) of
                  None \<Rightarrow> (method_not_allowed, app)
                | Some r' \<Rightarrow> (redirect (merge_slashes (req_path req)), app)))
      | r # rs \<Rightarrow>
          (case find (\<lambda>r'. req_method req \<in> set (rule_methods r')) (r # rs) of
             None \<Rightarrow> (method_not_allowed, app)
           | Some r' \<Rightarrow>
               (case map_of (view_functions app) (endpoint r') of
                  None \<Rightarrow> (internal_server_error, app)
                | Some f \<Rightarrow>
                    (case f (proc app) req of
                       (Inl e, s') \<Rightarrow> (internal_server_error, app\<lparr>proc := s'\<rparr>)
                     | (Inr resp, s') \<Rightarrow> (resp, app\<lparr>proc := s'\<rparr>)))))"

text \<open>
  Modelled from the spec: \<^verbatim>\<open>app.run(host, port, debug)\<close>, the transition \<open>start()\<close> of
  the specification's state machine, from \<open>stopped\<close> to \<open>listening\<close>, with debug mode as
  an explicit flag of the configuration.
\<close>

definition run :: "'s flask \<Rightarrow> string \<Rightarrow> nat \<Rightarrow> bool \<Rightarrow> 's flask" where
  "run app h p d =
     app\<lparr>proc := (proc app)\<lparr>lifecycle := Listening \<lparr>host = h, port = p, debug = d\<rparr>\<rparr>\<rparr>"

subsection \<open>The debugger of debug mode\<close>

text \<open>
  With \<^verbatim>\<open>debug=True\<close> the development server wraps the application in Werkzeug's
  debugger (\<^verbatim>\<open>DebuggedApplication\<close>), which looks at every request first, whatever its
  method. It is neither in the repository nor described by the specification; what
  follows models the requests it answers by itself without any secret:
  \<^item> a request whose query string has \<^verbatim>\<open>__debugger__=yes\<close>, \<^verbatim>\<open>cmd=resource\<close> and a
    non-empty \<^verbatim>\<open>f\<close> gets the file of that base name from the debugger's shared folder,
    or "not found" when the folder has none;
  \<^item> otherwise a request to the path \<^verbatim>\<open>/console\<close> gets the interactive console page.
  Every other request goes on to the application. The commands that need the debugger's
  per-process secret (PIN authentication, evaluation in a frame) are not modelled: the
  model passes them on, and the properties below make no statement about requests
  carrying \<^verbatim>\<open>__debugger__=yes\<close> beyond the resource command.
\<close>

definition arg :: "request \<Rightarrow> string \<Rightarrow> string option" where
  "arg req k = map_of (req_args req) k"

definition basename :: "string \<Rightarrow> string" where
  "basename f = rev (takeWhile (\<lambda>c. c \<noteq> CHR ''/'') (rev f))"

definition shared_files :: "(string \<times> string) list" where
  "shared_files =
     [(''style.css'', ''text/css''), (''debugger.js'', ''text/javascript''),
      (''console.png'', ''image/png''), (''less.png'', ''image/png''),
      (''more.png'', ''image/png'')]"

definition get_resource :: "string \<Rightarrow> response" where
  "get_resource f =
     (case map_of shared_files (basename f) of
        None \<Rightarrow> not_found
      | Some mt \<Rightarrow> \<lparr>status = 200, mimetype = mt, resp_body = DebuggerFile (basename f)\<rparr>)"

definition console_page :: response where
  "console_page = \<lparr>status = 200, mimetype = ''text/html'', resp_body = ConsolePage\<rparr>"

definition debugger :: "request \<Rightarrow> response option" where
  "debugger req =
     (if arg req ''__debugger__'' = Some ''yes''
      then (if arg req ''cmd'' = Some ''resource''
            then (case arg req ''f'' of
                    None \<Rightarrow> None
                  | Some f \<Rightarrow> if f = [] then None else Some (get_resource f))
            else None)
      else if req_path req = ''/console'' then Some console_page else None)"

text \<open>
  Modelled from the spec: the listening state of the server, with debug mode "an
  explicit configuration flag". A stopped server answers nothing. A listening one hands
  the request to the debugger first when the flag is set, and dispatches what the
  debugger does not answer. \<open>serve_all\<close> feeds the server a whole history of requests, in
  order.
\<close>

definition serve :: "'s flask \<Rightarrow> request \<Rightarrow> response option \<times> 's flask" where
  "serve app req =
     (case lifecycle (proc app) of
        Stopped \<Rightarrow> (None, app)
      | Listening l \<Rightarrow>
          (case (if debug l then debugger req else None) of
             Some resp \<Rightarrow> (Some resp, app)
           | None \<Rightarrow>
               (case full_dispatch_request app req of (resp, app') \<Rightarrow> (Some resp, app'))))"

fun serve_all :: "'s flask \<Rightarrow> request list \<Rightarrow> response option list \<times> 's flask" where
  "serve_all app [] = ([], app)"
| "serve_all app (req # reqs) =
     (case serve app req of
        (out, app') \<Rightarrow>
          (case serve_all app' reqs of (outs, app'') \<Rightarrow> (out # outs, app'')))"

section \<open>The program\<close>

text \<open>
  The view \<^verbatim>\<open>test\<close> (lines 8 and 9). It takes no argument and reads neither the request
  nor the state it runs in.
\<close>

definition test :: "'s view" where
  "test s req = (jsonify (PyDict [(''message'', PyStr ''Python backend is working!'')]), s)"

text \<open>
  Lines 5 to 9, what importing the module executes: the application object is created
  under the module's name and the view is registered for GET on \<^verbatim>\<open>/api/test\<close>.
\<close>

definition module_body :: "string \<Rightarrow> 's \<Rightarrow> 's flask" where
  "module_body name a = route (Flask name a) ''/api/test'' [''GET''] ''test'' test"

text \<open>
  The whole file, executed with \<^verbatim>\<open>__name__\<close> bound to \<open>name\<close> in an ambient state \<open>a\<close>:
  the body, then the guard of lines 11 and 12.
\<close>

definition main_py :: "string \<Rightarrow> 's \<Rightarrow> 's flask" where
  "main_py name a =
     (let app = module_body name a
      in if name = ''__main__'' then run app ''127.0.0.1'' 5000 True else app)"

text \<open>The server as started from the command line, after a history of requests.\<close>

definition server_after :: "'s \<Rightarrow> request list \<Rightarrow> 's flask" where
  "server_after a history = snd (serve_all (main_py ''__main__'' a) history)"

definition is_get_api_test :: "request \<Rightarrow> bool" where
  "is_get_api_test req = (req_method req = ''GET'' \<and> req_path req = ''/api/test'')"

text \<open>
  The requests that invoke the debugger: those that carry \<^verbatim>\<open>__debugger__=yes\<close> and
  those to the console's path.
\<close>

definition invokes_debugger :: "request \<Rightarrow> bool" where
  "invokes_debugger req =
     (arg req ''__debugger__'' = Some ''yes'' \<or> req_path req = ''/console'')"

section \<open>Properties\<close>

subsection \<open>The program's state and its dispatch, computed\<close>

lemma main_py_main:
  "main_py ''__main__'' a =
     \<lparr>proc = \<lparr>import_name = ''__main__'',
               url_map = [\<lparr>rule_path = ''/api/test'', rule_methods = [''GET''], endpoint = ''test''\<rparr>],
               lifecycle = Listening \<lparr>host = ''127.0.0.1'', port = 5000, debug = True\<rparr>,
               ambient = a\<rparr>,
      view_functions = [(''test'', test)]\<rparr>"
  by (simp add: main_py_def module_body_def route_def Flask_def run_def)

lemma module_body_eq:
  "module_body name a =
     \<lparr>proc = \<lparr>import_name = name,
               url_map = [\<lparr>rule_path = ''/api/test'', rule_methods = [''GET''], endpoint = ''test''\<rparr>],
               lifecycle = Stopped,
               ambient = a\<rparr>,
      view_functions = [(''test'', test)]\<rparr>"
  by (simp add: module_body_def route_def Flask_def)

lemma test_eq:
  "test s req =
     (Inr \<lparr>status = 200, mimetype = ''application/json'',
           resp_body = Json (JObj [(''message'', JStr ''Python backend is working!'')])\<rparr>, s)"
  by (simp add: test_def jsonify_def)

text \<open>Dispatch over the program's route table, whatever else the state holds.\<close>

lemma dispatch_registered:
  assumes "url_map (proc app) = [\<lparr>rule_path = ''/api/test'', rule_methods = [''GET''], endpoint = ''test''\<rparr>]"
    and "view_functions app = [(''test'', test)]"
  shows "full_dispatch_request app req =
     (if req_path req = ''/api/test''
      then if req_method req = ''GET''
           then (\<lparr>status = 200, mimetype = ''application/json'',
                  resp_body = Json (JObj [(''message'', JStr ''Python backend is working!'')])\<rparr>, app)
           else (method_not_allowed, app)
      else if merge_slashes (req_path req) = ''/api/test''
           then if req_method req = ''GET''
                then (redirect ''/api/test'', app)
                else (method_not_allowed, app)
           else (not_found, app))"
  using assms by (simp add: full_dispatch_request_def test_eq)

text \<open>What the debugger answers, and when it stays out of the way.\<close>

lemma debugger_passes: "\<not> invokes_debugger req \<Longrightarrow> debugger req = None"
  by (simp add: invokes_debugger_def debugger_def)

lemma debugger_status:
  "debugger req = Some resp \<Longrightarrow> status resp = 200 \<or> status resp = 404"
  by (auto simp: debugger_def get_resource_def console_page_def not_found_def
      split: if_splits option.splits)

text \<open>Serving a request leaves the started server as it was; so does any history.\<close>

lemma serve_main_py:
  "serve (main_py ''__main__'' a) req =
     (Some (case debugger req of
              Some resp \<Rightarrow> resp
            | None \<Rightarrow> fst (full_dispatch_request (main_py ''__main__'' a) req)),
      main_py ''__main__'' a)"
  by (simp add: serve_def main_py_main dispatch_registered split: option.split)

lemma serve_all_main_py:
  "serve_all (main_py ''__main__'' a) reqs =
     (map (\<lambda>req. fst (serve (main_py ''__main__'' a) req)) reqs, main_py ''__main__'' a)"
proof (induction reqs)
  case Nil
  show ?case by simp
next
  case (Cons req reqs)
  show ?case by (simp add: serve_main_py Cons.IH)
qed

lemma server_after_eq: "server_after a history = main_py ''__main__'' a"
  by (simp add: server_after_def serve_all_main_py)

lemma serve_server_after:
  "serve (server_after a history) req =
     (Some (case debugger req of
              Some resp \<Rightarrow> resp
            | None \<Rightarrow>
               (if req_path req = ''/api/test''
                then if req_method req = ''GET''
                     then \<lparr>status = 200, mimetype = ''application/json'',
                           resp_body = Json (JObj [(''message'', JStr ''Python backend is working!'')])\<rparr>
                     else method_not_allowed
                else if merge_slashes (req_path req) = ''/api/test''
                     then if req_method req = ''GET''
                          then redirect ''/api/test''
                          else method_not_allowed
                     else not_found)),
      server_after a history)"
  unfolding server_after_eq serve_main_py
  by (simp add: main_py_main dispatch_registered split: option.split)

subsection \<open>The endpoint\<close>

text \<open>
  Claim C1, as amended. Every GET request to the path \<^verbatim>\<open>/api/test\<close> whose query string
  does not carry \<^verbatim>\<open>__debugger__=yes\<close>, at any moment of the server's life and whatever
  its other query parameters, headers and body, is answered with status 200, a JSON
  content type and a body that is the JSON object mapping \<open>message\<close> to
  \<open>Python backend is working!\<close>.
\<close>

theorem get_api_test_ok:
  assumes "req_method req = ''GET''" and "req_path req = ''/api/test''"
    and "arg req ''__debugger__'' \<noteq> Some ''yes''"
  shows "fst (serve (server_after a history) req) =
     Some \<lparr>status = 200, mimetype = ''application/json'',
           resp_body = Json (JObj [(''message'', JStr ''Python backend is working!'')])\<rparr>"
proof -
  from assms(2,3) have "\<not> invokes_debugger req"
    by (simp add: invokes_debugger_def)
  then have "debugger req = None" by (rule debugger_passes)
  with assms(1,2) show ?thesis by (simp add: serve_server_after)
qed

theorem get_api_test_ok_witness:
  "fst (serve (server_after () [])
          \<lparr>req_method = ''GET'', req_path = ''/api/test'', req_args = [(''verbose'', ''1'')],
           req_headers = [(''Accept'', ''text/plain'')], req_data = ''x''\<rparr>) =
     Some \<lparr>status = 200, mimetype = ''application/json'',
           resp_body = Json (JObj [(''message'', JStr ''Python backend is working!'')])\<rparr>"
  using get_api_test_ok [of "\<lparr>req_method = ''GET'', req_path = ''/api/test'',
      req_args = [(''verbose'', ''1'')], req_headers = [(''Accept'', ''text/plain'')],
      req_data = ''x''\<rparr>" "()" "[]"]
  by (simp add: arg_def)

text \<open>
  As first stated, for every GET request to the path, the property fails: with debug
  mode on, the debugger answers a request for one of its files before the view is ever
  called, and the answer is a style sheet.
\<close>

theorem get_api_test_debugger_counterexample:
  "fst (serve (server_after () [])
          \<lparr>req_method = ''GET'', req_path = ''/api/test'',
           req_args = [(''__debugger__'', ''yes''), (''cmd'', ''resource''), (''f'', ''style.css'')],
           req_headers = [], req_data = ''''\<rparr>) =
     Some \<lparr>status = 200, mimetype = ''text/css'', resp_body = DebuggerFile ''style.css''\<rparr>
   \<and> fst (serve (server_after () [])
          \<lparr>req_method = ''GET'', req_path = ''/api/test'',
           req_args = [(''__debugger__'', ''yes''), (''cmd'', ''resource''), (''f'', ''style.css'')],
           req_headers = [], req_data = ''''\<rparr>) \<noteq>
     Some \<lparr>status = 200, mimetype = ''application/json'',
           resp_body = Json (JObj [(''message'', JStr ''Python backend is working!'')])\<rparr>"
  by (simp add: serve_server_after debugger_def arg_def get_resource_def basename_def
      shared_files_def)




text \<open>
  Claim C3, as amended. Every POST request to \<^verbatim>\<open>/api/test\<close> whose query string does not
  carry \<^verbatim>\<open>__debugger__=yes\<close> is answered with status 405, which is not 200: the route
  lists the method GET only.
\<close>

theorem post_api_test_not_allowed:
  assumes "req_method req = ''POST''" and "req_path req = ''/api/test''"
    and "arg req ''__debugger__'' \<noteq> Some ''yes''"
  shows "\<exists>resp. fst (serve (server_after a history) req) = Some resp
           \<and> status resp = 405 \<and> status resp \<noteq> 200"
proof -
  from assms(2,3) have "\<not> invokes_debugger req"
    by (simp add: invokes_debugger_def)
  then have "debugger req = None" by (rule debugger_passes)
  with assms(1,2) show ?thesis by (simp add: serve_server_after method_not_allowed_def)
qed

theorem post_api_test_not_allowed_witness:
  "\<exists>resp. fst (serve (server_after () [])
            \<lparr>req_method = ''POST'', req_path = ''/api/test'', req_args = [],
             req_headers = [], req_data = ''{}''\<rparr>) = Some resp
        \<and> status resp = 405 \<and> status resp \<noteq> 200"
  using post_api_test_not_allowed [of "\<lparr>req_method = ''POST'', req_path = ''/api/test'',
      req_args = [], req_headers = [], req_data = ''{}''\<rparr>" "()" "[]"]
  by (simp add: arg_def)

text \<open>
  As first stated, for every POST request to the path, the property fails for the same
  reason as C1: the debugger reads the query string of a request of any method, and
  answers a POST for one of its files with status 200.
\<close>

theorem post_api_test_debugger_counterexample:
  "map_option status (fst (serve (server_after () [])
          \<lparr>req_method = ''POST'', req_path = ''/api/test'',
           req_args = [(''__debugger__'', ''yes''), (''cmd'', ''resource''), (''f'', ''style.css'')],
           req_headers = [], req_data = ''''\<rparr>)) = Some 200"
  by (simp add: serve_server_after debugger_def arg_def get_resource_def basename_def
      shared_files_def)

subsection \<open>Independence of the request, and no effect on the state\<close>




text \<open>
  Claim C5. Handling a GET request to \<^verbatim>\<open>/api/test\<close> has no side effect: the view hands
  back the state it was given, and the whole server (application object, lifecycle and
  ambient state) after the request equals the server before it.
\<close>

theorem get_api_test_no_side_effect:
  assumes "is_get_api_test req"
  shows "snd (test s req) = s
       \<and> snd (serve (server_after a history) req) = server_after a history"
  using assms by (simp add: test_eq serve_server_after)

theorem get_api_test_no_side_effect_witness:
  "snd (test \<lparr>import_name = ''m'', url_map = [], lifecycle = Stopped, ambient = (7::nat)\<rparr>
          \<lparr>req_method = ''GET'', req_path = ''/api/test'', req_args = [],
           req_headers = [], req_data = ''''\<rparr>)
     = \<lparr>import_name = ''m'', url_map = [], lifecycle = Stopped, ambient = (7::nat)\<rparr>
   \<and> snd (serve (server_after (7::nat) [])
          \<lparr>req_method = ''GET'', req_path = ''/api/test'', req_args = [],
           req_headers = [], req_data = ''''\<rparr>) = server_after (7::nat) []"
  using get_api_test_no_side_effect [of
      "\<lparr>req_method = ''GET'', req_path = ''/api/test'', req_args = [],
        req_headers = [], req_data = ''''\<rparr>"
      "\<lparr>import_name = ''m'', url_map = [], lifecycle = Stopped, ambient = (7::nat)\<rparr>"
      "7::nat" "[]"]
  by (simp add: is_get_api_test_def)

subsection \<open>Startup and lifecycle\<close>

text \<open>
  Claim C6. Run as the main program, the server listens on 127.0.0.1, port 5000, with
  debug mode on, in every ambient state: nothing outside the source configures these
  values.
\<close>

theorem startup_config:
  "lifecycle (proc (main_py ''__main__'' a)) =
     Listening \<lparr>host = ''127.0.0.1'', port = 5000, debug = True\<rparr>"
  by (simp add: main_py_main)

text \<open>
  Claim C7. The lifecycle has two states, stopped and listening. The module body leaves
  the server stopped, \<open>run\<close> moves it to listening, and once started the server is
  listening after every history of requests and after every further request: nothing in
  the program takes it back to stopped.
\<close>

theorem lifecycle_machine:
  "(\<forall>l::lifecycle. l = Stopped \<or> (\<exists>c. l = Listening c))
   \<and> lifecycle (proc (module_body name a)) = Stopped
   \<and> lifecycle (proc (run (module_body name a) h p d)) =
       Listening \<lparr>host = h, port = p, debug = d\<rparr>
   \<and> (\<forall>history. lifecycle (proc (server_after a history)) =
         Listening \<lparr>host = ''127.0.0.1'', port = 5000, debug = True\<rparr>)
   \<and> (\<forall>history req. lifecycle (proc (snd (serve (server_after a history) req))) \<noteq> Stopped)"
proof -
  have two: "\<forall>l::lifecycle. l = Stopped \<or> (\<exists>c. l = Listening c)"
  proof
    fix l :: lifecycle
    show "l = Stopped \<or> (\<exists>c. l = Listening c)" by (cases l) simp_all
  qed
  have stopped: "lifecycle (proc (module_body name a)) = Stopped"
    by (simp add: module_body_eq)
  have start: "lifecycle (proc (run (module_body name a) h p d)) =
      Listening \<lparr>host = h, port = p, debug = d\<rparr>"
    by (simp add: run_def)
  have stays: "\<forall>history. lifecycle (proc (server_after a history)) =
      Listening \<lparr>host = ''127.0.0.1'', port = 5000, debug = True\<rparr>"
    by (simp add: server_after_eq main_py_main)
  have step: "\<forall>history req. lifecycle (proc (snd (serve (server_after a history) req))) \<noteq> Stopped"
    using stays by (simp add: serve_server_after)
  from two stopped start stays step show ?thesis by blast
qed

subsection \<open>The payload\<close>

text \<open>
  Claim C8. The payload is a literal that nothing mutates. After every history of
  requests the view registered under \<open>test\<close> is still the function \<open>test\<close>, and in every
  state, the ones the server reaches included, and for every request, a call of the
  view returns a response whose body is the same JSON object.
\<close>

theorem payload_constant:
  "map_of (view_functions (server_after a history)) ''test'' = Some test
   \<and> (\<exists>resp. fst (test s req) = Inr resp
         \<and> resp_body resp = Json (JObj [(''message'', JStr ''Python backend is working!'')]))
   \<and> (\<exists>resp. fst (test (proc (server_after a history)) req) = Inr resp
         \<and> resp_body resp = Json (JObj [(''message'', JStr ''Python backend is working!'')]))"
  by (simp add: server_after_eq main_py_main test_eq)

text \<open>
  Claim C9. The view is total: each call returns a response and none raises, because the
  literal dictionary has a JSON encoding; so no request at all is answered by the
  dispatcher's error branch (status 500).
\<close>

theorem test_total:
  "(\<exists>resp. fst (test s req) = Inr resp)
   \<and> map_option status (fst (serve (server_after a history) req')) \<noteq> Some 500"
proof -
  have "\<exists>resp. fst (test s req) = Inr resp" by (simp add: test_eq)
  moreover have "map_option status (fst (serve (server_after a history) req')) \<noteq> Some 500"
  proof (cases "debugger req'")
    case None
    then show ?thesis
      by (simp add: serve_server_after not_found_def method_not_allowed_def redirect_def)
  next
    case (Some resp)
    with debugger_status [OF Some] show ?thesis
      by (auto simp: serve_server_after)
  qed
  ultimately show ?thesis by blast
qed

subsection \<open>The main guard\<close>

text \<open>
  Claim C10. The server is listening exactly when the file ran as \<^verbatim>\<open>__main__\<close>. Under
  any name the route and its view are registered on the application object; under any
  other name the file does no more than its body, the server stays stopped and answers
  no request.
\<close>

theorem main_guard:
  "((\<exists>c. lifecycle (proc (main_py name a)) = Listening c) \<longleftrightarrow> name = ''__main__'')
   \<and> url_map (proc (main_py name a)) =
       [\<lparr>rule_path = ''/api/test'', rule_methods = [''GET''], endpoint = ''test''\<rparr>]
   \<and> map_of (view_functions (main_py name a)) ''test'' = Some test
   \<and> (name \<noteq> ''__main__'' \<longrightarrow>
        main_py name a = module_body name a
        \<and> lifecycle (proc (main_py name a)) = Stopped
        \<and> serve (main_py name a) req = (None, main_py name a))"
  by (simp add: main_py_def Let_def module_body_eq run_def serve_def)

theorem main_guard_witness:
  "lifecycle (proc (main_py ''backend.main'' ())) = Stopped
   \<and> url_map (proc (main_py ''backend.main'' ())) =
       [\<lparr>rule_path = ''/api/test'', rule_methods = [''GET''], endpoint = ''test''\<rparr>]
   \<and> fst (serve (main_py ''backend.main'' ())
        \<lparr>req_method = ''GET'', req_path = ''/api/test'', req_args = [],
         req_headers = [], req_data = ''''\<rparr>) = None"
  using main_guard [of "''backend.main''" "()"
      "\<lparr>req_method = ''GET'', req_path = ''/api/test'', req_args = [],
        req_headers = [], req_data = ''''\<rparr>"]
  by auto

end
